theory Spec2Isabelle
  imports Complex_Main "HOL-Library.AList"
begin

section \<open>Column-type transcoding helpers of \<open>mage_ai/data_preparation/models/utils.py\<close>\<close>

text \<open>
  The module works on three kinds of data: a column-type table (a Python \<open>dict\<close> from
  column name to a logical type tag, iterated in insertion order), a row (a pandas
  \<open>Series\<close> indexed by column name) and a table (a pandas or polars frame). A Python
  \<open>dict\<close> is an association list whose keys are distinct; a row is an association
  list too, read with \<open>map_of\<close> (a missing label raises \<open>KeyError\<close>) and written with
  \<open>AList.update\<close> (an existing label is replaced in place, as \<open>row[column] = v\<close> does).

  The codecs (\<open>simplejson\<close>, \<open>yaml\<close>), the conversion \<open>str\<close>, the column casts of
  pandas and polars and the memory estimate of dask are libraries outside the module.
  They are parameters of the model: each is a function that returns either the exception
  it raises or its result.
\<close>

subsection \<open>Values and exceptions\<close>

text \<open>
  The Python values the module tells apart: \<open>None\<close> (tested with \<open>val is not None\<close>),
  \<open>str\<close> (tested with \<open>type(val) is str\<close>), \<open>numpy.ndarray\<close> (tested with
  \<open>type(val) is numpy.ndarray\<close>), and everything else. \<open>PObject\<close> stands for an opaque
  object such as an \<open>ObjectId\<close>, named by its printed form. Of the floating-point
  values only \<open>float('nan')\<close> is modelled, as \<open>PNaN\<close>: it is how pandas marks a missing
  cell, and it is not \<open>None\<close>.
\<close>

datatype pyval =
    PNone
  | PBool bool
  | PInt int
  | PStr string
  | PList "pyval list"
  | PDict "(pyval \<times> pyval) list"
  | PNdarray "pyval list"
  | PObject string
  | PNaN

text \<open>Exceptions, all of them subclasses of Python's \<open>Exception\<close>.\<close>

datatype py_error =
    KeyError string
  | JSONDecodeError string
  | TypeError string
  | ValueError string
  | YAMLError string
  | ColumnNotFoundError string
  | InvalidOperationError string

type_synonym column_types = "(string \<times> string) list"
type_synonym row = "(string \<times> pyval) list"

subsection \<open>Type classification tables\<close>


definition JSON_SERIALIZABLE_COLUMN_TYPES :: "string set" where
  "JSON_SERIALIZABLE_COLUMN_TYPES = {''dict'', ''list''}"

definition STRING_SERIALIZABLE_COLUMN_TYPES :: "string set" where
  "STRING_SERIALIZABLE_COLUMN_TYPES = {''ObjectId''}"

definition AMBIGUOUS_COLUMN_TYPES :: "string set" where
  "AMBIGUOUS_COLUMN_TYPES = {''mixed-integer'', ''complex'', ''unknown-array''}"

definition CAST_TYPE_COLUMN_TYPES :: "string set" where
  "CAST_TYPE_COLUMN_TYPES = {''Int64'', ''int64'', ''float64''}"

datatype pl_dtype = PlFloat64 | PlInt64

definition POLARS_CAST_TYPE_COLUMN_TYPES :: "(string \<times> pl_dtype) list" where
  "POLARS_CAST_TYPE_COLUMN_TYPES = [(''Float64'', PlFloat64), (''Int64'', PlInt64)]"

subsection \<open>Transcoding necessity predicates\<close>

text \<open>
  \<open>should_serialize_pandas\<close>: an empty table is falsy and returns \<open>False\<close> at once;
  otherwise the loop returns \<open>True\<close> at the first tag found in either set and
  \<open>False\<close> when it runs off the end.
\<close>

fun should_serialize_scan :: "column_types \<Rightarrow> bool" where
  "should_serialize_scan [] = False"
| "should_serialize_scan ((column, column_type) # rest) =
     (if column_type \<in> JSON_SERIALIZABLE_COLUMN_TYPES \<or>
         column_type \<in> STRING_SERIALIZABLE_COLUMN_TYPES
      then True
      else should_serialize_scan rest)"

definition should_serialize_pandas :: "column_types \<Rightarrow> bool" where
  "should_serialize_pandas column_types =
     (if column_types = [] then False else should_serialize_scan column_types)"

fun should_deserialize_scan :: "column_types \<Rightarrow> bool" where
  "should_deserialize_scan [] = False"
| "should_deserialize_scan ((column, column_type) # rest) =
     (if column_type \<in> JSON_SERIALIZABLE_COLUMN_TYPES
      then True
      else should_deserialize_scan rest)"

definition should_deserialize_pandas :: "column_types \<Rightarrow> bool" where
  "should_deserialize_pandas column_types =
     (if column_types = [] then False else should_deserialize_scan column_types)"

subsection \<open>Row transcoder\<close>

text \<open>
  A \<open>for\<close> loop over the items of a table whose body may raise: the first exception
  ends the loop and is the result.
\<close>

fun for_each :: "('s \<Rightarrow> 'a \<Rightarrow> 'e + 's) \<Rightarrow> 's \<Rightarrow> 'a list \<Rightarrow> 'e + 's" where
  "for_each body s [] = Inr s"
| "for_each body s (x # xs) =
     (case body s x of
        Inl e \<Rightarrow> Inl e
      | Inr s' \<Rightarrow> for_each body s' xs)"

text \<open>
  One iteration of \<open>serialize_columns\<close>. \<open>dumps\<close> stands for
  \<open>simplejson.dumps(val, default=encode_complex, ignore_nan=True, use_decimal=True)\<close> and
  \<open>str_of\<close> for \<open>str(val)\<close>. The row is read only when the tag is in one of the two
  sets, and written only when the value read is not \<open>None\<close>.
\<close>

definition serialize_column ::
  "(pyval \<Rightarrow> py_error + string) \<Rightarrow> (pyval \<Rightarrow> string) \<Rightarrow> row \<Rightarrow> string \<times> string \<Rightarrow> py_error + row" where
  "serialize_column dumps str_of row cc =
     (case cc of (column, column_type) \<Rightarrow>
        if column_type \<in> JSON_SERIALIZABLE_COLUMN_TYPES then
          (case map_of row column of
             None \<Rightarrow> Inl (KeyError column)
           | Some val \<Rightarrow>
               if val \<noteq> PNone then
                 (case dumps val of
                    Inl e \<Rightarrow> Inl e
                  | Inr s \<Rightarrow> Inr (AList.update column (PStr s) row))
               else Inr row)
        else if column_type \<in> STRING_SERIALIZABLE_COLUMN_TYPES then
          (case map_of row column of
             None \<Rightarrow> Inl (KeyError column)
           | Some val \<Rightarrow>
               if val \<noteq> PNone then Inr (AList.update column (PStr (str_of val)) row)
               else Inr row)
        else Inr row)"

definition serialize_columns ::
  "(pyval \<Rightarrow> py_error + string) \<Rightarrow> (pyval \<Rightarrow> string) \<Rightarrow> row \<Rightarrow> column_types \<Rightarrow> py_error + row" where
  "serialize_columns dumps str_of row column_types =
     for_each (serialize_column dumps str_of) row column_types"

text \<open>
  One iteration of \<open>deserialize_columns\<close>. \<open>loads\<close> stands for \<open>simplejson.loads\<close>.
  A tag outside the JSON-serializable set skips the iteration before the row is read.
  \<open>list(val)\<close> of an array is the list of its elements.
\<close>

definition deserialize_column ::
  "(string \<Rightarrow> py_error + pyval) \<Rightarrow> row \<Rightarrow> string \<times> string \<Rightarrow> py_error + row" where
  "deserialize_column loads row cc =
     (case cc of (column, column_type) \<Rightarrow>
        if column_type \<notin> JSON_SERIALIZABLE_COLUMN_TYPES then Inr row
        else
          (case map_of row column of
             None \<Rightarrow> Inl (KeyError column)
           | Some val \<Rightarrow>
               (case val of
                  PStr s \<Rightarrow>
                    (case loads s of
                       Inl e \<Rightarrow> Inl e
                     | Inr decoded \<Rightarrow> Inr (AList.update column decoded row))
                | PNdarray xs \<Rightarrow>
                    if column_type = ''list'' then Inr (AList.update column (PList xs) row)
                    else Inr row
                | _ \<Rightarrow> Inr row)))"

definition deserialize_columns ::
  "(string \<Rightarrow> py_error + pyval) \<Rightarrow> row \<Rightarrow> column_types \<Rightarrow> py_error + row" where
  "deserialize_columns loads row column_types =
     for_each (deserialize_column loads) row column_types"

text \<open>
  What one iteration needs in order to return: the column is there when it is read, and
  the codec accepts the value it is given.
\<close>

definition serialize_ready ::
  "(pyval \<Rightarrow> py_error + string) \<Rightarrow> string \<Rightarrow> string \<Rightarrow> pyval option \<Rightarrow> bool" where
  "serialize_ready dumps c t ov =
     (if t \<in> JSON_SERIALIZABLE_COLUMN_TYPES then
        (case ov of None \<Rightarrow> False
         | Some v \<Rightarrow> v = PNone \<or> (case dumps v of Inl e \<Rightarrow> False | Inr s \<Rightarrow> True))
      else if t \<in> STRING_SERIALIZABLE_COLUMN_TYPES then ov \<noteq> None
      else True)"

definition deserialize_ready ::
  "(string \<Rightarrow> py_error + pyval) \<Rightarrow> string \<Rightarrow> string \<Rightarrow> pyval option \<Rightarrow> bool" where
  "deserialize_ready loads c t ov =
     (if t \<in> JSON_SERIALIZABLE_COLUMN_TYPES then
        (case ov of None \<Rightarrow> False
         | Some (PStr s) \<Rightarrow> (case loads s of Inl e \<Rightarrow> False | Inr w \<Rightarrow> True)
         | Some _ \<Rightarrow> True)
      else True)"

subsection \<open>Column caster\<close>

text \<open>
  A table is an association list from column name to column. \<open>astype\<close> stands for the
  pandas method \<open>Series.astype\<close>. The whole statement \<open>df[column] = df[column].astype(...)\<close>
  is inside the \<open>try\<close>, so a missing column is caught like a failed cast. The second
  component of the state is what \<open>traceback.print_exc()\<close> has printed so far. The
  functions return a pair, never an exception.
\<close>

type_synonym 'col table = "(string \<times> 'col) list"

definition cast_column ::
  "('col \<Rightarrow> string \<Rightarrow> py_error + 'col) \<Rightarrow> 'col table \<times> py_error list \<Rightarrow> string \<times> string
     \<Rightarrow> 'col table \<times> py_error list" where
  "cast_column astype st cc =
     (case st of (df, printed) \<Rightarrow>
      case cc of (column, column_type) \<Rightarrow>
        if column_type \<in> CAST_TYPE_COLUMN_TYPES then
          (case (case map_of df column of
                   None \<Rightarrow> Inl (KeyError column)
                 | Some col \<Rightarrow> astype col column_type) of
             Inl e \<Rightarrow> (df, printed @ [e])
           | Inr col' \<Rightarrow> (AList.update column col' df, printed))
        else (df, printed))"

definition cast_column_types ::
  "('col \<Rightarrow> string \<Rightarrow> py_error + 'col) \<Rightarrow> 'col table \<Rightarrow> column_types
     \<Rightarrow> 'col table \<times> py_error list" where
  "cast_column_types astype df column_types = foldl (cast_column astype) (df, []) column_types"

text \<open>
  \<open>pl_cast\<close> is polars' \<open>df.cast({column: dtype})\<close>: it returns a new table in which
  the named column is cast, or raises and leaves \<open>df\<close> as it was. \<open>cast_series\<close> stands
  for the cast of one polars column.
\<close>

definition pl_cast ::
  "('col \<Rightarrow> pl_dtype \<Rightarrow> py_error + 'col) \<Rightarrow> 'col table \<Rightarrow> string \<Rightarrow> pl_dtype
     \<Rightarrow> py_error + 'col table" where
  "pl_cast cast_series df column dtype =
     (case map_of df column of
        None \<Rightarrow> Inl (ColumnNotFoundError column)
      | Some col \<Rightarrow>
          (case cast_series col dtype of
             Inl e \<Rightarrow> Inl e
           | Inr col' \<Rightarrow> Inr (AList.update column col' df)))"

definition cast_column_polars ::
  "('col \<Rightarrow> pl_dtype \<Rightarrow> py_error + 'col) \<Rightarrow> 'col table \<times> py_error list \<Rightarrow> string \<times> string
     \<Rightarrow> 'col table \<times> py_error list" where
  "cast_column_polars cast_series st cc =
     (case st of (df, printed) \<Rightarrow>
      case cc of (column, column_type) \<Rightarrow>
        (case map_of POLARS_CAST_TYPE_COLUMN_TYPES column_type of
           None \<Rightarrow> (df, printed)
         | Some dtype \<Rightarrow>
             (case pl_cast cast_series df column dtype of
                Inl e \<Rightarrow> (df, printed @ [e])
              | Inr df' \<Rightarrow> (df', printed))))"

definition cast_column_types_polars ::
  "('col \<Rightarrow> pl_dtype \<Rightarrow> py_error + 'col) \<Rightarrow> 'col table \<Rightarrow> column_types
     \<Rightarrow> 'col table \<times> py_error list" where
  "cast_column_types_polars cast_series df column_types =
     foldl (cast_column_polars cast_series) (df, []) column_types"

subsection \<open>Table partitioner\<close>



subsection \<open>Serializability probe\<close>

text \<open>
  \<open>yaml_document\<close> is the expression \<open>dict(key=value)\<close>: a keyword argument named
  \<open>key\<close>, so the mapping has the one entry \<open>'key'\<close>, whatever the parameter \<open>key\<close> holds.
  \<open>yaml_dump\<close> and \<open>yaml_safe_load\<close> stand for \<open>yaml.dump\<close> and \<open>yaml.safe_load\<close>.
\<close>

definition yaml_document :: "string \<Rightarrow> pyval \<Rightarrow> pyval" where
  "yaml_document key value = PDict [(PStr ''key'', value)]"

definition is_yaml_serializable ::
  "(pyval \<Rightarrow> py_error + string) \<Rightarrow> (string \<Rightarrow> py_error + pyval) \<Rightarrow> string \<Rightarrow> pyval \<Rightarrow> bool" where
  "is_yaml_serializable yaml_dump yaml_safe_load key value =
     (case yaml_dump (yaml_document key value) of
        Inl e \<Rightarrow> False
      | Inr s \<Rightarrow>
          (case yaml_safe_load s of
             Inl e \<Rightarrow> False
           | Inr loaded \<Rightarrow> True))"

subsection \<open>Sample behaviour of the libraries\<close>

text \<open>
  Finite tables of what the libraries return on the values used in the examples below
  (\<open>simplejson.dumps([1, 2])\<close> is \<open>'[1, 2]'\<close>, \<open>simplejson.dumps(float('nan'),
  ignore_nan=True)\<close> is \<open>'null'\<close>, \<open>str(float('nan'))\<close> is \<open>'nan'\<close>,
  \<open>yaml.dump({'key': 42})\<close> is
  \<open>'key: 42\n'\<close>, \<open>yaml.safe_load\<close> rejects a \<open>python/object\<close> tag, \<open>astype('int64')\<close>
  fails on a non-numeric string). A value outside a table is reported as an error.
\<close>

definition sample_dumps :: "pyval \<Rightarrow> py_error + string" where
  "sample_dumps v =
     (if v = PList [PInt 1, PInt 2] then Inr ''[1, 2]''
      else if v = PList [] then Inr ''[]''
      else if v = PDict [] then Inr ''{}''
      else if v = PNaN then Inr ''null''
      else Inl (TypeError ''not JSON serializable''))"

definition sample_loads :: "string \<Rightarrow> py_error + pyval" where
  "sample_loads s =
     (if s = ''[1, 2]'' then Inr (PList [PInt 1, PInt 2])
      else if s = ''[]'' then Inr (PList [])
      else if s = ''{}'' then Inr (PDict [])
      else if s = ''null'' then Inr PNone
      else Inl (JSONDecodeError s))"

definition sample_str :: "pyval \<Rightarrow> string" where
  "sample_str v =
     (case v of PObject repr \<Rightarrow> repr | PStr s \<Rightarrow> s | PNaN \<Rightarrow> ''nan'' | _ \<Rightarrow> ''?'')"

type_synonym series = "string \<times> pyval list"

fun is_int_value :: "pyval \<Rightarrow> bool" where
  "is_int_value (PInt i) = True"
| "is_int_value v = False"

definition sample_astype :: "series \<Rightarrow> string \<Rightarrow> py_error + series" where
  "sample_astype col dtype =
     (if list_all is_int_value (snd col) then Inr (dtype, snd col)
      else Inl (ValueError ''invalid literal for int()''))"

definition sample_cast_series :: "series \<Rightarrow> pl_dtype \<Rightarrow> py_error + series" where
  "sample_cast_series col dtype =
     (if list_all is_int_value (snd col)
      then Inr (case dtype of PlFloat64 \<Rightarrow> ''Float64'' | PlInt64 \<Rightarrow> ''Int64'', snd col)
      else Inl (InvalidOperationError ''conversion from str failed''))"

definition sample_yaml_dump :: "pyval \<Rightarrow> py_error + string" where
  "sample_yaml_dump v =
     (if v = PDict [(PStr ''key'', PInt 42)] then Inr (''key: 42'' @ [CHR 0x0A])
      else if v = PDict [(PStr ''key'', PObject ''Point'')]
        then Inr (''key: !!python/object:__main__.Point {}'' @ [CHR 0x0A])
      else if v = PDict [(PStr ''key'', PObject ''generator'')]
        then Inl (TypeError ''cannot pickle generator object'')
      else Inl (YAMLError ''cannot represent an object''))"

definition sample_yaml_safe_load :: "string \<Rightarrow> py_error + pyval" where
  "sample_yaml_safe_load s =
     (if s = ''key: 42'' @ [CHR 0x0A] then Inr (PDict [(PStr ''key'', PInt 42)])
      else Inl (YAMLError ''could not determine a constructor''))"

section \<open>Properties\<close>

lemmas transcoder_eval =
  serialize_columns_def deserialize_columns_def serialize_column_def deserialize_column_def
  JSON_SERIALIZABLE_COLUMN_TYPES_def STRING_SERIALIZABLE_COLUMN_TYPES_def
  sample_dumps_def sample_loads_def sample_str_def

lemmas caster_eval =
  cast_column_types_def cast_column_def cast_column_types_polars_def cast_column_polars_def
  pl_cast_def CAST_TYPE_COLUMN_TYPES_def POLARS_CAST_TYPE_COLUMN_TYPES_def
  sample_astype_def sample_cast_series_def

subsection \<open>The necessity predicates\<close>

lemma should_serialize_scan_iff:
  "should_serialize_scan T =
     (\<exists>tag \<in> snd ` set T.
        tag \<in> JSON_SERIALIZABLE_COLUMN_TYPES \<union> STRING_SERIALIZABLE_COLUMN_TYPES)"
  by (induction T rule: should_serialize_scan.induct) auto

lemma should_deserialize_scan_iff:
  "should_deserialize_scan T = (\<exists>tag \<in> snd ` set T. tag \<in> JSON_SERIALIZABLE_COLUMN_TYPES)"
  by (induction T rule: should_deserialize_scan.induct) auto

text \<open>
  C3. \<open>should_serialize_pandas T\<close> is true exactly when \<open>T\<close> is non-empty and some tag of
  \<open>T\<close> is \<open>dict\<close>, \<open>list\<close> or \<open>ObjectId\<close>; it is false exactly when \<open>T\<close> is empty or every
  tag of \<open>T\<close> lies outside those two sets.
\<close>

theorem should_serialize_pandas_iff:
  "(should_serialize_pandas T \<longleftrightarrow>
      T \<noteq> [] \<and> (\<exists>tag \<in> snd ` set T. tag \<in> {''dict'', ''list''} \<union> {''ObjectId''}))
   \<and> (\<not> should_serialize_pandas T \<longleftrightarrow>
      T = [] \<or> (\<forall>tag \<in> snd ` set T. tag \<notin> {''dict'', ''list''} \<union> {''ObjectId''}))"
  unfolding should_serialize_pandas_def should_serialize_scan_iff
    JSON_SERIALIZABLE_COLUMN_TYPES_def STRING_SERIALIZABLE_COLUMN_TYPES_def
  by auto

theorem should_serialize_pandas_iff_witness:
  "should_serialize_pandas [(''id'', ''ObjectId''), (''n'', ''int64'')]
   \<and> \<not> should_serialize_pandas [(''n'', ''int64'')]
   \<and> \<not> should_serialize_pandas []"
  using should_serialize_pandas_iff [of "[(''id'', ''ObjectId''), (''n'', ''int64'')]"]
    should_serialize_pandas_iff [of "[(''n'', ''int64'')]"]
    should_serialize_pandas_iff [of "[]"]
  by simp

text \<open>
  C4. \<open>should_deserialize_pandas T\<close> is true exactly when \<open>T\<close> is non-empty and some tag
  of \<open>T\<close> is \<open>dict\<close> or \<open>list\<close>; a table whose tags are all string-serializable
  (\<open>ObjectId\<close>) gives false.
\<close>

theorem should_deserialize_pandas_iff:
  "(should_deserialize_pandas T \<longleftrightarrow>
      T \<noteq> [] \<and> (\<exists>tag \<in> snd ` set T. tag \<in> {''dict'', ''list''}))
   \<and> ((\<forall>tag \<in> snd ` set T. tag \<in> STRING_SERIALIZABLE_COLUMN_TYPES)
        \<longrightarrow> \<not> should_deserialize_pandas T)"
  unfolding should_deserialize_pandas_def should_deserialize_scan_iff
    JSON_SERIALIZABLE_COLUMN_TYPES_def STRING_SERIALIZABLE_COLUMN_TYPES_def
  by auto

theorem should_deserialize_pandas_iff_witness:
  "should_deserialize_pandas [(''id'', ''ObjectId''), (''tags'', ''list'')]
   \<and> \<not> should_deserialize_pandas [(''id'', ''ObjectId'')]
   \<and> \<not> should_deserialize_pandas []"
  using should_deserialize_pandas_iff [of "[(''id'', ''ObjectId''), (''tags'', ''list'')]"]
    should_deserialize_pandas_iff [of "[(''id'', ''ObjectId'')]"]
    should_deserialize_pandas_iff [of "[]"]
  by (simp add: STRING_SERIALIZABLE_COLUMN_TYPES_def)

text \<open>
  C9. Whenever \<open>should_deserialize_pandas T\<close> holds, \<open>should_serialize_pandas T\<close> holds:
  the tags the first scans for are among the tags the second scans for.
\<close>

theorem should_deserialize_implies_should_serialize:
  "should_deserialize_pandas T \<Longrightarrow> should_serialize_pandas T"
  unfolding should_deserialize_pandas_def should_serialize_pandas_def
    should_deserialize_scan_iff should_serialize_scan_iff
  by (auto split: if_splits)

theorem should_deserialize_implies_should_serialize_witness:
  "should_deserialize_pandas [(''n'', ''int64''), (''payload'', ''dict'')]
   \<and> should_serialize_pandas [(''n'', ''int64''), (''payload'', ''dict'')]"
proof -
  have d: "should_deserialize_pandas [(''n'', ''int64''), (''payload'', ''dict'')]"
    by (simp add: should_deserialize_pandas_def JSON_SERIALIZABLE_COLUMN_TYPES_def)
  from d should_deserialize_implies_should_serialize [OF d] show ?thesis
    by simp
qed

subsection \<open>The loop over a column-type table\<close>

lemma for_each_untouched:
  assumes run: "for_each body row T = Inr row'"
    and out: "c \<notin> fst ` set T"
    and other: "\<And>r c' t r'. body r (c', t) = Inr r' \<Longrightarrow> c' \<noteq> c \<Longrightarrow> map_of r' c = map_of r c"
  shows "map_of row' c = map_of row c"
  using run out
proof (induction T arbitrary: row)
  case Nil
  then show ?case by simp
next
  case (Cons cc T)
  obtain c' t where cc: "cc = (c', t)" by (cases cc)
  from Cons.prems(1) obtain mid where
    step: "body row (c', t) = Inr mid" and rest: "for_each body mid T = Inr row'"
    by (auto simp: cc split: sum.splits)
  from Cons.prems(2) have ne: "c' \<noteq> c" and out': "c \<notin> fst ` set T" by (auto simp: cc)
  from Cons.IH [OF rest out'] other [OF step ne] show ?case by simp
qed

lemma for_each_at:
  assumes dist: "distinct (map fst T)"
    and mem: "(c, t) \<in> set T"
    and run: "for_each body row T = Inr row'"
    and other: "\<And>r c' t' r'. body r (c', t') = Inr r' \<Longrightarrow> c' \<noteq> c \<Longrightarrow> map_of r' c = map_of r c"
  shows "\<exists>mid mid'. map_of mid c = map_of row c \<and> body mid (c, t) = Inr mid'
           \<and> map_of row' c = map_of mid' c"
  using dist mem run
proof (induction T arbitrary: row)
  case Nil
  then show ?case by simp
next
  case (Cons cc T)
  obtain c' t' where cc: "cc = (c', t')" by (cases cc)
  from Cons.prems(3) obtain nxt where
    step: "body row (c', t') = Inr nxt" and rest: "for_each body nxt T = Inr row'"
    by (auto simp: cc split: sum.splits)
  from Cons.prems(1) have dist': "distinct (map fst T)" and fresh: "c' \<notin> fst ` set T"
    by (auto simp: cc)
  show ?case
  proof (cases "(c, t) \<in> set T")
    case True
    then have "c' \<noteq> c" using fresh by force
    then have same: "map_of nxt c = map_of row c" using other [OF step] by simp
    from Cons.IH [OF dist' True rest] same show ?thesis by auto
  next
    case False
    with Cons.prems(2) have eq: "c' = c" "t' = t" by (auto simp: cc)
    from fresh eq have "c \<notin> fst ` set T" by simp
    have "map_of row' c = map_of nxt c"
      by (rule for_each_untouched [OF rest \<open>c \<notin> fst ` set T\<close>]) (rule other; assumption)
    with step eq show ?thesis by blast
  qed
qed

lemma for_each_returns:
  assumes dist: "distinct (map fst T)"
    and ok: "\<And>c t. (c, t) \<in> set T \<Longrightarrow> Q c t (map_of row c)"
    and step_ok: "\<And>r c t. Q c t (map_of r c) \<Longrightarrow> \<exists>r'. body r (c, t) = Inr r'"
    and other: "\<And>r c' t' r' c. body r (c', t') = Inr r' \<Longrightarrow> c' \<noteq> c \<Longrightarrow> map_of r' c = map_of r c"
  shows "\<exists>row'. for_each body row T = Inr row'"
  using dist ok
proof (induction T arbitrary: row)
  case Nil
  then show ?case by simp
next
  case (Cons cc T)
  obtain c' t' where cc: "cc = (c', t')" by (cases cc)
  have "Q c' t' (map_of row c')" using Cons.prems(2) [of c' t'] by (simp add: cc)
  from step_ok [OF this] obtain nxt where step: "body row (c', t') = Inr nxt" by blast
  from Cons.prems(1) have dist': "distinct (map fst T)" and fresh: "c' \<notin> fst ` set T"
    by (auto simp: cc)
  have "Q c t (map_of nxt c)" if "(c, t) \<in> set T" for c t
  proof -
    from that fresh have "c' \<noteq> c" by force
    from other [OF step this] Cons.prems(2) [of c t] that show ?thesis by simp
  qed
  from Cons.IH [OF dist' this] obtain row' where "for_each body nxt T = Inr row'" by blast
  with step show ?case by (simp add: cc)
qed

subsection \<open>One iteration of the row transcoder\<close>

lemma serialize_column_other:
  "serialize_column dumps str_of row (c', t) = Inr row' \<Longrightarrow> c' \<noteq> c \<Longrightarrow>
   map_of row' c = map_of row c"
  by (auto simp: serialize_column_def update_conv' split: if_splits option.splits sum.splits)

lemma deserialize_column_other:
  "deserialize_column loads row (c', t) = Inr row' \<Longrightarrow> c' \<noteq> c \<Longrightarrow>
   map_of row' c = map_of row c"
  by (auto simp: deserialize_column_def update_conv'
      split: if_splits option.splits sum.splits pyval.splits)

lemma serialize_column_None:
  "map_of row c = Some PNone \<Longrightarrow> serialize_column dumps str_of row (c, t) = Inr row"
  by (simp add: serialize_column_def)

lemma deserialize_column_None:
  "map_of row c = Some PNone \<Longrightarrow> deserialize_column loads row (c, t) = Inr row"
  by (simp add: deserialize_column_def)

lemma serialize_column_keeps_None:
  "serialize_column dumps str_of row cc = Inr row' \<Longrightarrow> map_of row c = Some PNone \<Longrightarrow>
   map_of row' c = Some PNone"
  by (cases cc)
    (auto simp: serialize_column_def update_conv' split: if_splits option.splits sum.splits)

lemma deserialize_column_keeps_None:
  "deserialize_column loads row cc = Inr row' \<Longrightarrow> map_of row c = Some PNone \<Longrightarrow>
   map_of row' c = Some PNone"
  by (cases cc)
    (auto simp: deserialize_column_def update_conv'
      split: if_splits option.splits sum.splits pyval.splits)

lemma for_each_keeps_None:
  assumes run: "for_each body row T = Inr row'"
    and none: "map_of row c = Some PNone"
    and keep: "\<And>r cc r'. body r cc = Inr r' \<Longrightarrow> map_of r c = Some PNone \<Longrightarrow>
                 map_of r' c = Some PNone"
  shows "map_of row' c = Some PNone"
  using run none
proof (induction T arbitrary: row)
  case Nil
  then show ?case by simp
next
  case (Cons cc T)
  from Cons.prems(1) obtain mid where
    step: "body row cc = Inr mid" and rest: "for_each body mid T = Inr row'"
    by (auto split: sum.splits)
  from Cons.IH [OF rest keep [OF step Cons.prems(2)]] show ?case .
qed

lemma serialize_column_json:
  "serialize_column dumps str_of row (c, t) = Inr row' \<Longrightarrow>
   t \<in> JSON_SERIALIZABLE_COLUMN_TYPES \<Longrightarrow> map_of row c = Some v \<Longrightarrow> v \<noteq> PNone \<Longrightarrow>
   \<exists>s. dumps v = Inr s \<and> map_of row' c = Some (PStr s)"
  by (auto simp: serialize_column_def update_conv' split: if_splits option.splits sum.splits)

lemma deserialize_column_str:
  "deserialize_column loads row (c, t) = Inr row' \<Longrightarrow>
   t \<in> JSON_SERIALIZABLE_COLUMN_TYPES \<Longrightarrow> map_of row c = Some (PStr s) \<Longrightarrow>
   \<exists>w. loads s = Inr w \<and> map_of row' c = Some w"
  by (auto simp: deserialize_column_def update_conv' split: if_splits option.splits sum.splits)

lemma serialize_columns_json:
  assumes "distinct (map fst T)" "(c, t) \<in> set T"
    and "serialize_columns dumps str_of row T = Inr row'"
    and "t \<in> JSON_SERIALIZABLE_COLUMN_TYPES" "map_of row c = Some v" "v \<noteq> PNone"
  shows "\<exists>s. dumps v = Inr s \<and> map_of row' c = Some (PStr s)"
proof -
  have "\<exists>mid mid'. map_of mid c = map_of row c
      \<and> serialize_column dumps str_of mid (c, t) = Inr mid' \<and> map_of row' c = map_of mid' c"
    by (rule for_each_at [OF assms(1,2) assms(3) [unfolded serialize_columns_def]])
      (rule serialize_column_other; assumption)
  then obtain mid mid' where m: "map_of mid c = map_of row c"
    "serialize_column dumps str_of mid (c, t) = Inr mid'" "map_of row' c = map_of mid' c"
    by blast
  from serialize_column_json [OF m(2) assms(4) _ assms(6)] m(1,3) assms(5)
  show ?thesis by simp
qed

lemma deserialize_columns_str:
  assumes "distinct (map fst T)" "(c, t) \<in> set T"
    and "deserialize_columns loads row T = Inr row'"
    and "t \<in> JSON_SERIALIZABLE_COLUMN_TYPES" "map_of row c = Some (PStr s)"
  shows "\<exists>w. loads s = Inr w \<and> map_of row' c = Some w"
proof -
  have "\<exists>mid mid'. map_of mid c = map_of row c
      \<and> deserialize_column loads mid (c, t) = Inr mid' \<and> map_of row' c = map_of mid' c"
    by (rule for_each_at [OF assms(1,2) assms(3) [unfolded deserialize_columns_def]])
      (rule deserialize_column_other; assumption)
  then obtain mid mid' where m: "map_of mid c = map_of row c"
    "deserialize_column loads mid (c, t) = Inr mid'" "map_of row' c = map_of mid' c"
    by blast
  from deserialize_column_str [OF m(2) assms(4)] m(1,3) assms(5)
  show ?thesis by simp
qed

lemma serialize_columns_keeps_None:
  "serialize_columns dumps str_of row T = Inr row' \<Longrightarrow> map_of row c = Some PNone \<Longrightarrow>
   map_of row' c = Some PNone"
  unfolding serialize_columns_def
  by (erule for_each_keeps_None) (auto dest: serialize_column_keeps_None)

lemma deserialize_columns_keeps_None:
  "deserialize_columns loads row T = Inr row' \<Longrightarrow> map_of row c = Some PNone \<Longrightarrow>
   map_of row' c = Some PNone"
  unfolding deserialize_columns_def
  by (erule for_each_keeps_None) (auto dest: deserialize_column_keeps_None)

lemma serialize_column_returns:
  "serialize_ready dumps c t (map_of r c) \<Longrightarrow> \<exists>r'. serialize_column dumps str_of r (c, t) = Inr r'"
  by (auto simp: serialize_ready_def serialize_column_def split: if_splits option.splits sum.splits)

lemma deserialize_column_returns:
  "deserialize_ready loads c t (map_of r c) \<Longrightarrow> \<exists>r'. deserialize_column loads r (c, t) = Inr r'"
  by (auto simp: deserialize_ready_def deserialize_column_def
      split: if_splits option.splits sum.splits pyval.splits)

lemma serialize_columns_returns:
  assumes "distinct (map fst T)"
    and "\<And>c t. (c, t) \<in> set T \<Longrightarrow> serialize_ready dumps c t (map_of row c)"
  shows "\<exists>row'. serialize_columns dumps str_of row T = Inr row'"
  unfolding serialize_columns_def
  using assms(1)
proof (rule for_each_returns [where Q = "serialize_ready dumps"])
  show "serialize_ready dumps c t (map_of row c)" if "(c, t) \<in> set T" for c t
    using assms(2) that by blast
qed (auto intro: serialize_column_returns dest: serialize_column_other)

lemma deserialize_columns_returns:
  assumes "distinct (map fst T)"
    and "\<And>c t. (c, t) \<in> set T \<Longrightarrow> deserialize_ready loads c t (map_of row c)"
  shows "\<exists>row'. deserialize_columns loads row T = Inr row'"
  unfolding deserialize_columns_def
  using assms(1)
proof (rule for_each_returns [where Q = "deserialize_ready loads"])
  show "deserialize_ready loads c t (map_of row c)" if "(c, t) \<in> set T" for c t
    using assms(2) that by blast
qed (auto intro: deserialize_column_returns dest: deserialize_column_other)

subsection \<open>Round trip of the row transcoder\<close>

text \<open>
  C1. Let \<open>T\<close> be a column-type table (distinct column names) and \<open>R\<close> a row that holds
  every column \<open>T\<close> tags as JSON- or string-serializable, and let every non-null value of
  a JSON-tagged column be encodable, the decoder accepting what the encoder produced
  (without these the calls raise). Then \<open>serialize_columns\<close> returns a row \<open>R1\<close>,
  \<open>deserialize_columns\<close> returns a row \<open>R2\<close> from \<open>R1\<close>, and \<open>R2\<close> equals \<open>R\<close> on every
  column whose tag is JSON-serializable and whose original value is not null and is
  decoded back from its encoding: in particular on every dict or list of JSON-primitive
  values.
\<close>

theorem serialize_deserialize_roundtrip:
  assumes dist: "distinct (map fst T)"
    and present: "\<forall>(c, t) \<in> set T.
        t \<in> JSON_SERIALIZABLE_COLUMN_TYPES \<union> STRING_SERIALIZABLE_COLUMN_TYPES
          \<longrightarrow> map_of R c \<noteq> None"
    and codec: "\<forall>(c, t) \<in> set T. \<forall>v.
        t \<in> JSON_SERIALIZABLE_COLUMN_TYPES \<and> map_of R c = Some v \<and> v \<noteq> PNone
          \<longrightarrow> (\<exists>s w. dumps v = Inr s \<and> loads s = Inr w)"
  shows "\<exists>R1 R2.
      serialize_columns dumps str_of R T = Inr R1
      \<and> deserialize_columns loads R1 T = Inr R2
      \<and> (\<forall>c t v s.
            (c, t) \<in> set T \<and> t \<in> JSON_SERIALIZABLE_COLUMN_TYPES
            \<and> map_of R c = Some v \<and> v \<noteq> PNone
            \<and> dumps v = Inr s \<and> loads s = Inr v
          \<longrightarrow> map_of R2 c = Some v)"
proof -
  have "serialize_ready dumps c t (map_of R c)" if "(c, t) \<in> set T" for c t
    using present codec that
    by (fastforce simp: serialize_ready_def split: option.splits sum.splits)
  from serialize_columns_returns [OF dist this]
  obtain R1 where ser: "serialize_columns dumps str_of R T = Inr R1" by blast
  have "deserialize_ready loads c t (map_of R1 c)" if mem: "(c, t) \<in> set T" for c t
  proof (cases "t \<in> JSON_SERIALIZABLE_COLUMN_TYPES")
    case False
    then show ?thesis by (simp add: deserialize_ready_def)
  next
    case True
    with present mem obtain v where v: "map_of R c = Some v" by fastforce
    show ?thesis
    proof (cases "v = PNone")
      case True
      with serialize_columns_keeps_None [OF ser] v have "map_of R1 c = Some PNone" by simp
      then show ?thesis by (simp add: deserialize_ready_def)
    next
      case False
      from serialize_columns_json [OF dist mem ser True v False]
      obtain s where s: "dumps v = Inr s" "map_of R1 c = Some (PStr s)" by blast
      from codec mem True v False obtain s' w where "dumps v = Inr s'" "loads s' = Inr w"
        by blast
      with s show ?thesis using True by (simp add: deserialize_ready_def)
    qed
  qed
  from deserialize_columns_returns [OF dist this]
  obtain R2 where de: "deserialize_columns loads R1 T = Inr R2" by blast
  have "map_of R2 c = Some v"
    if "(c, t) \<in> set T" "t \<in> JSON_SERIALIZABLE_COLUMN_TYPES" "map_of R c = Some v"
      "v \<noteq> PNone" "dumps v = Inr s" "loads s = Inr v" for c t v s
  proof -
    from serialize_columns_json [OF dist that(1) ser that(2,3,4)] that(5)
    have "map_of R1 c = Some (PStr s)" by simp
    from deserialize_columns_str [OF dist that(1) de that(2) this] that(6)
    show ?thesis by simp
  qed
  with ser de show ?thesis by blast
qed

theorem serialize_deserialize_roundtrip_witness:
  "\<exists>R1 R2.
     serialize_columns sample_dumps sample_str
       [(''id'', PObject ''5f1a''), (''tags'', PList [PInt 1, PInt 2]), (''note'', PNone)]
       [(''id'', ''ObjectId''), (''tags'', ''list''), (''note'', ''dict'')] = Inr R1
     \<and> deserialize_columns sample_loads R1
       [(''id'', ''ObjectId''), (''tags'', ''list''), (''note'', ''dict'')] = Inr R2
     \<and> map_of R2 ''tags'' = Some (PList [PInt 1, PInt 2])"
proof -
  let ?T = "[(''id'', ''ObjectId''), (''tags'', ''list''), (''note'', ''dict'')]"
  let ?R = "[(''id'', PObject ''5f1a''), (''tags'', PList [PInt 1, PInt 2]), (''note'', PNone)]"
  have d: "distinct (map fst ?T)" by simp
  have p: "\<forall>(c, t) \<in> set ?T.
      t \<in> JSON_SERIALIZABLE_COLUMN_TYPES \<union> STRING_SERIALIZABLE_COLUMN_TYPES
        \<longrightarrow> map_of ?R c \<noteq> None"
    by simp
  have c: "\<forall>(c, t) \<in> set ?T. \<forall>v.
      t \<in> JSON_SERIALIZABLE_COLUMN_TYPES \<and> map_of ?R c = Some v \<and> v \<noteq> PNone
        \<longrightarrow> (\<exists>s w. sample_dumps v = Inr s \<and> sample_loads s = Inr w)"
    by (simp add: sample_dumps_def sample_loads_def JSON_SERIALIZABLE_COLUMN_TYPES_def)
  from serialize_deserialize_roundtrip [OF d p c, of sample_str]
  obtain R1 R2 where r:
    "serialize_columns sample_dumps sample_str ?R ?T = Inr R1"
    "deserialize_columns sample_loads R1 ?T = Inr R2"
    "\<forall>c t v s. (c, t) \<in> set ?T \<and> t \<in> JSON_SERIALIZABLE_COLUMN_TYPES
        \<and> map_of ?R c = Some v \<and> v \<noteq> PNone
        \<and> sample_dumps v = Inr s \<and> sample_loads s = Inr v
      \<longrightarrow> map_of R2 c = Some v"
    by blast
  from r(3) have "(''tags'', ''list'') \<in> set ?T \<and> ''list'' \<in> JSON_SERIALIZABLE_COLUMN_TYPES
        \<and> map_of ?R ''tags'' = Some (PList [PInt 1, PInt 2]) \<and> PList [PInt 1, PInt 2] \<noteq> PNone
        \<and> sample_dumps (PList [PInt 1, PInt 2]) = Inr ''[1, 2]''
        \<and> sample_loads ''[1, 2]'' = Inr (PList [PInt 1, PInt 2])
      \<longrightarrow> map_of R2 ''tags'' = Some (PList [PInt 1, PInt 2])"
    by blast
  then have "map_of R2 ''tags'' = Some (PList [PInt 1, PInt 2])"
    by (simp add: sample_dumps_def sample_loads_def JSON_SERIALIZABLE_COLUMN_TYPES_def)
  with r(1,2) show ?thesis by blast
qed

subsection \<open>Null values\<close>

lemma serialize_column_encodes:
  assumes "map_of R c = Some v" "v \<noteq> PNone"
  shows "(t \<in> JSON_SERIALIZABLE_COLUMN_TYPES \<longrightarrow>
            serialize_column dumps str_of R (c, t)
              = (case dumps v of Inl e \<Rightarrow> Inl e | Inr s \<Rightarrow> Inr (AList.update c (PStr s) R)))
       \<and> (t \<notin> JSON_SERIALIZABLE_COLUMN_TYPES \<and> t \<in> STRING_SERIALIZABLE_COLUMN_TYPES \<longrightarrow>
            serialize_column dumps str_of R (c, t) = Inr (AList.update c (PStr (str_of v)) R))"
  using assms by (simp add: serialize_column_def)

text \<open>
  A missing cell that pandas marks with NaN is not \<open>None\<close>: under the tag \<open>dict\<close> it is
  encoded to the string \<open>null\<close>, and under the tag \<open>ObjectId\<close> it becomes the string
  \<open>nan\<close>.
\<close>

theorem missing_value_is_encoded_counterexample:
  "serialize_columns sample_dumps sample_str [(''c'', PNaN)] [(''c'', ''dict'')]
     = Inr [(''c'', PStr ''null'')]
   \<and> serialize_columns sample_dumps sample_str [(''c'', PNaN)] [(''c'', ''ObjectId'')]
     = Inr [(''c'', PStr ''nan'')]
   \<and> [(''c'', PStr ''null'')] \<noteq> [(''c'', PNaN)]
   \<and> [(''c'', PStr ''nan'')] \<noteq> [(''c'', PNaN)]"
  by (simp add: transcoder_eval)

text \<open>
  C2 (amended). A column that holds \<open>None\<close> is passed through by both directions,
  whatever its tag and whatever the codec would return on \<open>None\<close>: the iteration for that
  column returns the row as it is, and a whole run that returns leaves the column at
  \<open>None\<close>. In particular \<open>serialize_columns({"c": None}, {"c": "dict"})\<close> returns
  \<open>{"c": None}\<close>, and so does \<open>deserialize_columns\<close>. Every other value, a missing-value
  marker such as NaN among them, is an ordinary value to \<open>serialize_columns\<close>: under a
  JSON-serializable tag it is handed to the encoder and replaced by its encoding, and
  under a string-serializable tag it is replaced by its string form.
\<close>

theorem none_passthrough:
  "(map_of R c = Some PNone \<longrightarrow>
      serialize_column dumps str_of R (c, t) = Inr R \<and> deserialize_column loads R (c, t) = Inr R)
   \<and> (map_of R c = Some PNone \<and> serialize_columns dumps str_of R T = Inr R'
        \<longrightarrow> map_of R' c = Some PNone)
   \<and> (map_of R c = Some PNone \<and> deserialize_columns loads R T = Inr R'
        \<longrightarrow> map_of R' c = Some PNone)
   \<and> serialize_columns dumps str_of [(''c'', PNone)] [(''c'', ''dict'')] = Inr [(''c'', PNone)]
   \<and> deserialize_columns loads [(''c'', PNone)] [(''c'', ''dict'')] = Inr [(''c'', PNone)]
   \<and> (map_of R c = Some v \<and> v \<noteq> PNone \<and> t \<in> JSON_SERIALIZABLE_COLUMN_TYPES \<longrightarrow>
        serialize_column dumps str_of R (c, t)
          = (case dumps v of Inl e \<Rightarrow> Inl e | Inr s \<Rightarrow> Inr (AList.update c (PStr s) R)))
   \<and> (map_of R c = Some v \<and> v \<noteq> PNone \<and> t \<notin> JSON_SERIALIZABLE_COLUMN_TYPES
        \<and> t \<in> STRING_SERIALIZABLE_COLUMN_TYPES \<longrightarrow>
        serialize_column dumps str_of R (c, t) = Inr (AList.update c (PStr (str_of v)) R))"
proof (intro conjI)
  show "serialize_columns dumps str_of [(''c'', PNone)] [(''c'', ''dict'')] = Inr [(''c'', PNone)]"
    by (simp add: serialize_columns_def serialize_column_def JSON_SERIALIZABLE_COLUMN_TYPES_def)
  show "deserialize_columns loads [(''c'', PNone)] [(''c'', ''dict'')] = Inr [(''c'', PNone)]"
    by (simp add: deserialize_columns_def deserialize_column_def
        JSON_SERIALIZABLE_COLUMN_TYPES_def)
  show "map_of R c = Some PNone \<longrightarrow>
      serialize_column dumps str_of R (c, t) = Inr R \<and> deserialize_column loads R (c, t) = Inr R"
    by (simp add: serialize_column_None deserialize_column_None)
  show "map_of R c = Some PNone \<and> serialize_columns dumps str_of R T = Inr R'
      \<longrightarrow> map_of R' c = Some PNone"
    by (auto dest: serialize_columns_keeps_None)
  show "map_of R c = Some PNone \<and> deserialize_columns loads R T = Inr R'
      \<longrightarrow> map_of R' c = Some PNone"
    by (auto dest: deserialize_columns_keeps_None)
  show "map_of R c = Some v \<and> v \<noteq> PNone \<and> t \<in> JSON_SERIALIZABLE_COLUMN_TYPES \<longrightarrow>
      serialize_column dumps str_of R (c, t)
        = (case dumps v of Inl e \<Rightarrow> Inl e | Inr s \<Rightarrow> Inr (AList.update c (PStr s) R))"
    using serialize_column_encodes [of R c v t dumps str_of] by blast
  show "map_of R c = Some v \<and> v \<noteq> PNone \<and> t \<notin> JSON_SERIALIZABLE_COLUMN_TYPES
      \<and> t \<in> STRING_SERIALIZABLE_COLUMN_TYPES \<longrightarrow>
      serialize_column dumps str_of R (c, t) = Inr (AList.update c (PStr (str_of v)) R)"
    using serialize_column_encodes [of R c v t dumps str_of] by blast
qed

theorem none_passthrough_witness:
  "map_of [(''a'', PList []), (''c'', PNone)] ''c'' = Some PNone
   \<and> serialize_columns sample_dumps sample_str [(''a'', PList []), (''c'', PNone)]
       [(''a'', ''list''), (''c'', ''dict'')] = Inr [(''a'', PStr ''[]''), (''c'', PNone)]
   \<and> map_of [(''a'', PStr ''[]''), (''c'', PNone)] ''c'' = Some PNone
   \<and> deserialize_columns sample_loads [(''a'', PStr ''[]''), (''c'', PNone)]
       [(''a'', ''list''), (''c'', ''dict'')] = Inr [(''a'', PList []), (''c'', PNone)]
   \<and> map_of [(''a'', PList []), (''c'', PNone)] ''c'' = Some PNone
   \<and> serialize_column sample_dumps sample_str [(''a'', PList []), (''c'', PNone)] (''a'', ''list'')
       = Inr [(''a'', PStr ''[]''), (''c'', PNone)]"
  using none_passthrough [of "[(''a'', PList []), (''c'', PNone)]" "''c''" sample_dumps sample_str
      "''dict''" sample_loads "[(''a'', ''list''), (''c'', ''dict'')]"
      "[(''a'', PStr ''[]''), (''c'', PNone)]"]
    none_passthrough [of "[(''a'', PList []), (''c'', PNone)]" "''a''" sample_dumps sample_str
      "''list''" sample_loads "[]" "[]" "PList []"]
  by (simp add: transcoder_eval)

subsection \<open>What deserialization changes\<close>

lemma deserialize_column_cases:
  assumes "deserialize_column loads row (c, t) = Inr row'" "map_of row c = Some v"
  shows "(t \<in> JSON_SERIALIZABLE_COLUMN_TYPES \<longrightarrow>
            (\<forall>s. v = PStr s \<longrightarrow> (\<exists>w. loads s = Inr w \<and> map_of row' c = Some w)))
       \<and> (t = ''list'' \<longrightarrow> (\<forall>xs. v = PNdarray xs \<longrightarrow> map_of row' c = Some (PList xs)))
       \<and> (t \<noteq> ''list'' \<longrightarrow> (\<forall>xs. v = PNdarray xs \<longrightarrow> map_of row' c = Some v))
       \<and> (t \<notin> JSON_SERIALIZABLE_COLUMN_TYPES \<longrightarrow> map_of row' c = Some v)
       \<and> (t \<in> STRING_SERIALIZABLE_COLUMN_TYPES \<longrightarrow> map_of row' c = Some v)
       \<and> ((\<forall>s. v \<noteq> PStr s) \<and> (\<forall>xs. v \<noteq> PNdarray xs) \<longrightarrow> map_of row' c = Some v)"
  using assms
  by (auto simp: deserialize_column_def update_conv' JSON_SERIALIZABLE_COLUMN_TYPES_def
      STRING_SERIALIZABLE_COLUMN_TYPES_def
      split: if_splits option.splits sum.splits pyval.splits)

text \<open>
  C8. When \<open>deserialize_columns\<close> returns, for every column of the table: a string is
  replaced by its decoding when the tag is \<open>dict\<close> or \<open>list\<close>; an array is replaced by
  the list of its elements when the tag is \<open>list\<close>, and kept when it is not; a value
  under any other tag, \<open>ObjectId\<close> among them, is kept; and a value that is neither a
  string nor an array (a structured value, or \<open>None\<close>) is kept. Columns the table does
  not name are kept.
\<close>

theorem deserialize_columns_cases:
  assumes dist: "distinct (map fst T)"
    and run: "deserialize_columns loads R T = Inr R'"
  shows "(\<forall>c t v. (c, t) \<in> set T \<and> map_of R c = Some v \<longrightarrow>
          (t \<in> JSON_SERIALIZABLE_COLUMN_TYPES \<longrightarrow>
             (\<forall>s. v = PStr s \<longrightarrow> (\<exists>w. loads s = Inr w \<and> map_of R' c = Some w)))
        \<and> (t = ''list'' \<longrightarrow> (\<forall>xs. v = PNdarray xs \<longrightarrow> map_of R' c = Some (PList xs)))
        \<and> (t \<noteq> ''list'' \<longrightarrow> (\<forall>xs. v = PNdarray xs \<longrightarrow> map_of R' c = Some v))
        \<and> (t \<notin> JSON_SERIALIZABLE_COLUMN_TYPES \<longrightarrow> map_of R' c = Some v)
        \<and> (t \<in> STRING_SERIALIZABLE_COLUMN_TYPES \<longrightarrow> map_of R' c = Some v)
        \<and> ((\<forall>s. v \<noteq> PStr s) \<and> (\<forall>xs. v \<noteq> PNdarray xs) \<longrightarrow> map_of R' c = Some v))
     \<and> (\<forall>c. c \<notin> fst ` set T \<longrightarrow> map_of R' c = map_of R c)"
proof -
  have untouched: "\<forall>c. c \<notin> fst ` set T \<longrightarrow> map_of R' c = map_of R c"
  proof (intro allI impI)
    fix c assume out: "c \<notin> fst ` set T"
    show "map_of R' c = map_of R c"
      by (rule for_each_untouched [OF run [unfolded deserialize_columns_def] out])
        (rule deserialize_column_other; assumption)
  qed
  have listed: "\<forall>c t v. (c, t) \<in> set T \<and> map_of R c = Some v \<longrightarrow>
          (t \<in> JSON_SERIALIZABLE_COLUMN_TYPES \<longrightarrow>
             (\<forall>s. v = PStr s \<longrightarrow> (\<exists>w. loads s = Inr w \<and> map_of R' c = Some w)))
        \<and> (t = ''list'' \<longrightarrow> (\<forall>xs. v = PNdarray xs \<longrightarrow> map_of R' c = Some (PList xs)))
        \<and> (t \<noteq> ''list'' \<longrightarrow> (\<forall>xs. v = PNdarray xs \<longrightarrow> map_of R' c = Some v))
        \<and> (t \<notin> JSON_SERIALIZABLE_COLUMN_TYPES \<longrightarrow> map_of R' c = Some v)
        \<and> (t \<in> STRING_SERIALIZABLE_COLUMN_TYPES \<longrightarrow> map_of R' c = Some v)
        \<and> ((\<forall>s. v \<noteq> PStr s) \<and> (\<forall>xs. v \<noteq> PNdarray xs) \<longrightarrow> map_of R' c = Some v)"
  proof (intro allI, rule impI)
    fix c t v assume a: "(c, t) \<in> set T \<and> map_of R c = Some v"
    have "\<exists>mid mid'. map_of mid c = map_of R c
        \<and> deserialize_column loads mid (c, t) = Inr mid' \<and> map_of R' c = map_of mid' c"
      by (rule for_each_at [OF dist conjunct1 [OF a] run [unfolded deserialize_columns_def]])
        (rule deserialize_column_other; assumption)
    then obtain mid mid' where m: "map_of mid c = Some v"
      "deserialize_column loads mid (c, t) = Inr mid'" "map_of R' c = map_of mid' c"
      using a by auto
    from deserialize_column_cases [OF m(2) m(1)]
    show "(t \<in> JSON_SERIALIZABLE_COLUMN_TYPES \<longrightarrow>
             (\<forall>s. v = PStr s \<longrightarrow> (\<exists>w. loads s = Inr w \<and> map_of R' c = Some w)))
        \<and> (t = ''list'' \<longrightarrow> (\<forall>xs. v = PNdarray xs \<longrightarrow> map_of R' c = Some (PList xs)))
        \<and> (t \<noteq> ''list'' \<longrightarrow> (\<forall>xs. v = PNdarray xs \<longrightarrow> map_of R' c = Some v))
        \<and> (t \<notin> JSON_SERIALIZABLE_COLUMN_TYPES \<longrightarrow> map_of R' c = Some v)
        \<and> (t \<in> STRING_SERIALIZABLE_COLUMN_TYPES \<longrightarrow> map_of R' c = Some v)
        \<and> ((\<forall>s. v \<noteq> PStr s) \<and> (\<forall>xs. v \<noteq> PNdarray xs) \<longrightarrow> map_of R' c = Some v)"
      unfolding m(3) .
  qed
  from listed untouched show ?thesis by (rule conjI)
qed

theorem deserialize_columns_cases_witness:
  "distinct (map fst [(''a'', ''dict''), (''b'', ''list''), (''id'', ''ObjectId''), (''n'', ''dict'')])
   \<and> deserialize_columns sample_loads
        [(''a'', PStr ''{}''), (''b'', PNdarray [PInt 1]), (''id'', PStr ''[]''), (''n'', PNone),
         (''x'', PStr ''[]'')]
        [(''a'', ''dict''), (''b'', ''list''), (''id'', ''ObjectId''), (''n'', ''dict'')]
      = Inr [(''a'', PDict []), (''b'', PList [PInt 1]), (''id'', PStr ''[]''), (''n'', PNone),
         (''x'', PStr ''[]'')]
   \<and> map_of [(''a'', PDict []), (''b'', PList [PInt 1]), (''id'', PStr ''[]''), (''n'', PNone),
         (''x'', PStr ''[]'')] ''id'' = Some (PStr ''[]'')"
proof -
  let ?T = "[(''a'', ''dict''), (''b'', ''list''), (''id'', ''ObjectId''), (''n'', ''dict'')]"
  let ?R = "[(''a'', PStr ''{}''), (''b'', PNdarray [PInt 1]), (''id'', PStr ''[]''),
    (''n'', PNone), (''x'', PStr ''[]'')]"
  let ?R' = "[(''a'', PDict []), (''b'', PList [PInt 1]), (''id'', PStr ''[]''), (''n'', PNone),
    (''x'', PStr ''[]'')]"
  have d: "distinct (map fst ?T)" by simp
  have run: "deserialize_columns sample_loads ?R ?T = Inr ?R'"
    by (simp add: transcoder_eval)
  from deserialize_columns_cases [OF d run]
  have "(''id'', ''ObjectId'') \<in> set ?T \<and> map_of ?R ''id'' = Some (PStr ''[]'') \<longrightarrow>
      (''ObjectId'' \<in> STRING_SERIALIZABLE_COLUMN_TYPES \<longrightarrow> map_of ?R' ''id'' = Some (PStr ''[]''))"
    by blast
  then have "map_of ?R' ''id'' = Some (PStr ''[]'')"
    by (simp add: STRING_SERIALIZABLE_COLUMN_TYPES_def)
  with d run show ?thesis by blast
qed

subsection \<open>Tolerance of the column casters\<close>

lemma foldl_untouched:
  assumes other: "\<And>s c' t'. c' \<noteq> c \<Longrightarrow> map_of (fst (step s (c', t'))) c = map_of (fst s) c"
    and out: "c \<notin> fst ` set xs"
  shows "map_of (fst (foldl step s xs)) c = map_of (fst s) c"
  using out
proof (induction xs arbitrary: s)
  case Nil
  then show ?case by simp
next
  case (Cons x xs)
  obtain c' t' where x: "x = (c', t')" by (cases x)
  from Cons.prems have "c' \<noteq> c" "c \<notin> fst ` set xs" by (auto simp: x)
  with Cons.IH [of "step s x"] other [of c' s t'] show ?case by (simp add: x)
qed

lemma foldl_printed_mono:
  assumes mono: "\<And>s x. set (snd s) \<subseteq> set (snd (step s x))"
  shows "set (snd s) \<subseteq> set (snd (foldl step s xs))"
proof (induction xs arbitrary: s)
  case Nil
  then show ?case by simp
next
  case (Cons x xs)
  from mono [of s x] Cons.IH [of "step s x"] show ?case by auto
qed

lemma distinct_keys_split:
  assumes "distinct (map fst T)" "(c, t) \<in> set T"
  shows "\<exists>pre post. T = pre @ (c, t) # post \<and> c \<notin> fst ` set pre \<and> c \<notin> fst ` set post"
proof -
  from split_list [OF assms(2)] obtain pre post where T: "T = pre @ (c, t) # post" by blast
  with assms(1) show ?thesis by auto
qed

lemma cast_column_other:
  "c' \<noteq> c \<Longrightarrow> map_of (fst (cast_column astype s (c', t'))) c = map_of (fst s) c"
  by (cases s) (auto simp: cast_column_def update_conv' split: option.splits sum.splits)

lemma cast_column_printed_mono: "set (snd s) \<subseteq> set (snd (cast_column astype s x))"
  by (cases s; cases x) (auto simp: cast_column_def split: option.splits sum.splits)

lemma cast_column_polars_other:
  "c' \<noteq> c \<Longrightarrow> map_of (fst (cast_column_polars cs s (c', t'))) c = map_of (fst s) c"
  by (cases s)
    (auto simp: cast_column_polars_def pl_cast_def update_conv' split: option.splits sum.splits)

lemma cast_column_polars_printed_mono:
  "set (snd s) \<subseteq> set (snd (cast_column_polars cs s x))"
  by (cases s; cases x)
    (auto simp: cast_column_polars_def pl_cast_def split: option.splits sum.splits)

lemma cast_column_at:
  assumes "t \<in> CAST_TYPE_COLUMN_TYPES" "map_of (fst s) c = Some col"
  shows "case astype col t of
           Inl e \<Rightarrow> map_of (fst (cast_column astype s (c, t))) c = Some col
                     \<and> e \<in> set (snd (cast_column astype s (c, t)))
         | Inr col' \<Rightarrow> map_of (fst (cast_column astype s (c, t))) c = Some col'"
  using assms by (cases s) (auto simp: cast_column_def update_conv' split: sum.splits)

lemma cast_column_polars_at:
  assumes "map_of POLARS_CAST_TYPE_COLUMN_TYPES t = Some dtype" "map_of (fst s) c = Some col"
  shows "case cs col dtype of
           Inl e \<Rightarrow> map_of (fst (cast_column_polars cs s (c, t))) c = Some col
                     \<and> e \<in> set (snd (cast_column_polars cs s (c, t)))
         | Inr col' \<Rightarrow> map_of (fst (cast_column_polars cs s (c, t))) c = Some col'"
  using assms
  by (cases s) (auto simp: cast_column_polars_def pl_cast_def update_conv' split: sum.splits)

lemma cast_column_types_at:
  assumes dist: "distinct (map fst T)" and mem: "(c, t) \<in> set T"
    and tag: "t \<in> CAST_TYPE_COLUMN_TYPES" and col: "map_of df c = Some col"
  shows "case astype col t of
           Inl e \<Rightarrow> map_of (fst (cast_column_types astype df T)) c = Some col
                     \<and> e \<in> set (snd (cast_column_types astype df T))
         | Inr col' \<Rightarrow> map_of (fst (cast_column_types astype df T)) c = Some col'"
proof -
  from distinct_keys_split [OF dist mem] obtain pre post where
    T: "T = pre @ (c, t) # post" and pre: "c \<notin> fst ` set pre" and post: "c \<notin> fst ` set post"
    by blast
  define s1 where "s1 = foldl (cast_column astype) (df, []) pre"
  define s2 where "s2 = cast_column astype s1 (c, t)"
  have fin: "cast_column_types astype df T = foldl (cast_column astype) s2 post"
    by (simp add: cast_column_types_def T s1_def s2_def)
  have "map_of (fst s1) c = Some col"
    unfolding s1_def using foldl_untouched [of c "cast_column astype" pre "(df, [])"] pre col
    by (simp add: cast_column_other)
  note at = cast_column_at [OF tag this, of astype, folded s2_def]
  have keep: "map_of (fst (foldl (cast_column astype) s2 post)) c = map_of (fst s2) c"
    using foldl_untouched [of c "cast_column astype" post s2] post
    by (simp add: cast_column_other)
  have mono: "set (snd s2) \<subseteq> set (snd (foldl (cast_column astype) s2 post))"
    by (rule foldl_printed_mono) (rule cast_column_printed_mono)
  from at keep mono show ?thesis
    unfolding fin by (auto split: sum.splits)
qed

lemma cast_column_types_polars_at:
  assumes dist: "distinct (map fst T)" and mem: "(c, t) \<in> set T"
    and tag: "map_of POLARS_CAST_TYPE_COLUMN_TYPES t = Some dtype" and col: "map_of df c = Some col"
  shows "case cs col dtype of
           Inl e \<Rightarrow> map_of (fst (cast_column_types_polars cs df T)) c = Some col
                     \<and> e \<in> set (snd (cast_column_types_polars cs df T))
         | Inr col' \<Rightarrow> map_of (fst (cast_column_types_polars cs df T)) c = Some col'"
proof -
  from distinct_keys_split [OF dist mem] obtain pre post where
    T: "T = pre @ (c, t) # post" and pre: "c \<notin> fst ` set pre" and post: "c \<notin> fst ` set post"
    by blast
  define s1 where "s1 = foldl (cast_column_polars cs) (df, []) pre"
  define s2 where "s2 = cast_column_polars cs s1 (c, t)"
  have fin: "cast_column_types_polars cs df T = foldl (cast_column_polars cs) s2 post"
    by (simp add: cast_column_types_polars_def T s1_def s2_def)
  have "map_of (fst s1) c = Some col"
    unfolding s1_def using foldl_untouched [of c "cast_column_polars cs" pre "(df, [])"] pre col
    by (simp add: cast_column_polars_other)
  note at = cast_column_polars_at [OF tag this, of cs, folded s2_def]
  have keep: "map_of (fst (foldl (cast_column_polars cs) s2 post)) c = map_of (fst s2) c"
    using foldl_untouched [of c "cast_column_polars cs" post s2] post
    by (simp add: cast_column_polars_other)
  have mono: "set (snd s2) \<subseteq> set (snd (foldl (cast_column_polars cs) s2 post))"
    by (rule foldl_printed_mono) (rule cast_column_polars_printed_mono)
  from at keep mono show ?thesis
    unfolding fin by (auto split: sum.splits)
qed

text \<open>
  C6. Both casters return a table and the list of printed failures for every input.
  For every numeric-castable column of the table that the frame holds: when its cast
  raises, the exception is among the printed ones and the column is as it was; when its
  cast succeeds, the column is the cast one, whatever happened to the other columns.
\<close>

theorem cast_failure_is_tolerated:
  assumes dist: "distinct (map fst T)"
  shows "(\<forall>c t col. (c, t) \<in> set T \<and> t \<in> CAST_TYPE_COLUMN_TYPES \<and> map_of df c = Some col \<longrightarrow>
           (case astype col t of
              Inl e \<Rightarrow> map_of (fst (cast_column_types astype df T)) c = Some col
                        \<and> e \<in> set (snd (cast_column_types astype df T))
            | Inr col' \<Rightarrow> map_of (fst (cast_column_types astype df T)) c = Some col'))
       \<and> (\<forall>c t dtype col.
            (c, t) \<in> set T \<and> map_of POLARS_CAST_TYPE_COLUMN_TYPES t = Some dtype
            \<and> map_of df c = Some col \<longrightarrow>
           (case cast_series col dtype of
              Inl e \<Rightarrow> map_of (fst (cast_column_types_polars cast_series df T)) c = Some col
                        \<and> e \<in> set (snd (cast_column_types_polars cast_series df T))
            | Inr col' \<Rightarrow> map_of (fst (cast_column_types_polars cast_series df T)) c = Some col'))"
proof (intro conjI allI impI; elim conjE)
  fix c t col
  assume "(c, t) \<in> set T" "t \<in> CAST_TYPE_COLUMN_TYPES" "map_of df c = Some col"
  then show "case astype col t of
      Inl e \<Rightarrow> map_of (fst (cast_column_types astype df T)) c = Some col
                \<and> e \<in> set (snd (cast_column_types astype df T))
    | Inr col' \<Rightarrow> map_of (fst (cast_column_types astype df T)) c = Some col'"
    by (rule cast_column_types_at [OF dist])
next
  fix c t dtype col
  assume "(c, t) \<in> set T" "map_of POLARS_CAST_TYPE_COLUMN_TYPES t = Some dtype"
    "map_of df c = Some col"
  then show "case cast_series col dtype of
      Inl e \<Rightarrow> map_of (fst (cast_column_types_polars cast_series df T)) c = Some col
                \<and> e \<in> set (snd (cast_column_types_polars cast_series df T))
    | Inr col' \<Rightarrow> map_of (fst (cast_column_types_polars cast_series df T)) c = Some col'"
    by (rule cast_column_types_polars_at [OF dist])
qed

theorem cast_failure_is_tolerated_witness:
  "cast_column_types sample_astype
      [(''a'', (''object'', [PStr ''x''])), (''b'', (''int32'', [PInt 1, PInt 2]))]
      [(''a'', ''int64''), (''b'', ''int64'')]
    = ([(''a'', (''object'', [PStr ''x''])), (''b'', (''int64'', [PInt 1, PInt 2]))],
       [ValueError ''invalid literal for int()''])
   \<and> cast_column_types_polars sample_cast_series
      [(''a'', (''String'', [PStr ''x''])), (''b'', (''Int32'', [PInt 1, PInt 2]))]
      [(''a'', ''Int64''), (''b'', ''Int64'')]
    = ([(''a'', (''String'', [PStr ''x''])), (''b'', (''Int64'', [PInt 1, PInt 2]))],
       [InvalidOperationError ''conversion from str failed''])"
proof -
  let ?T = "[(''a'', ''int64''), (''b'', ''int64'')]"
  have d: "distinct (map fst ?T)" by simp
  note th = cast_failure_is_tolerated [OF d, of "[(''a'', (''object'', [PStr ''x''])), (''b'', (''int32'', [PInt 1, PInt 2]))]" sample_astype sample_cast_series]
  from th have "(''a'', ''int64'') \<in> set ?T \<and> ''int64'' \<in> CAST_TYPE_COLUMN_TYPES
      \<and> map_of [(''a'', (''object'', [PStr ''x''])), (''b'', (''int32'', [PInt 1, PInt 2]))] ''a''
          = Some (''object'', [PStr ''x'']) \<longrightarrow>
      (case sample_astype (''object'', [PStr ''x'']) ''int64'' of
         Inl e \<Rightarrow> map_of (fst (cast_column_types sample_astype
             [(''a'', (''object'', [PStr ''x''])), (''b'', (''int32'', [PInt 1, PInt 2]))] ?T)) ''a''
             = Some (''object'', [PStr ''x''])
           \<and> e \<in> set (snd (cast_column_types sample_astype
             [(''a'', (''object'', [PStr ''x''])), (''b'', (''int32'', [PInt 1, PInt 2]))] ?T))
       | Inr col' \<Rightarrow> map_of (fst (cast_column_types sample_astype
             [(''a'', (''object'', [PStr ''x''])), (''b'', (''int32'', [PInt 1, PInt 2]))] ?T)) ''a''
             = Some col')"
    by blast
  then show ?thesis
    by (simp add: caster_eval)
qed

subsection \<open>Partition count\<close>





subsection \<open>The YAML probe\<close>

text \<open>
  The probe returns true exactly when encoding the mapping it builds and decoding the
  result both succeed, and false when either raises; it has no exception among its
  results.
\<close>

lemma is_yaml_serializable_iff:
  "(is_yaml_serializable yaml_dump yaml_safe_load key value \<longleftrightarrow>
      (\<exists>s loaded. yaml_dump (yaml_document key value) = Inr s
         \<and> yaml_safe_load s = Inr loaded))
   \<and> (\<forall>e. yaml_dump (yaml_document key value) = Inl e \<longrightarrow>
        is_yaml_serializable yaml_dump yaml_safe_load key value = False)
   \<and> (\<forall>s e. yaml_dump (yaml_document key value) = Inr s \<and> yaml_safe_load s = Inl e \<longrightarrow>
        is_yaml_serializable yaml_dump yaml_safe_load key value = False)"
  by (auto simp: is_yaml_serializable_def split: sum.splits)

lemma is_yaml_serializable_examples:
  "is_yaml_serializable sample_yaml_dump sample_yaml_safe_load ''k'' (PInt 42)
   \<and> \<not> is_yaml_serializable sample_yaml_dump sample_yaml_safe_load ''k'' (PObject ''Point'')
   \<and> \<not> is_yaml_serializable sample_yaml_dump sample_yaml_safe_load ''k'' (PObject ''generator'')"
  by (simp add: is_yaml_serializable_def yaml_document_def sample_yaml_dump_def
      sample_yaml_safe_load_def)

text \<open>
  C7. The specification has the probe encode the mapping \<open>{key: value}\<close>. The code
  does not:
  called with the key \<open>k\<close> and the value 42 it builds \<open>dict(key=value)\<close>, which is
  \<open>{'key': 42}\<close> and not \<open>{'k': 42}\<close>, and its result is decided by encoding and decoding
  that mapping. The parameter \<open>key\<close> is never read.
\<close>

theorem is_yaml_serializable_encodes_literal_key:
  "yaml_document ''k'' (PInt 42) = PDict [(PStr ''key'', PInt 42)]
   \<and> yaml_document ''k'' (PInt 42) \<noteq> PDict [(PStr ''k'', PInt 42)]
   \<and> is_yaml_serializable yaml_dump yaml_safe_load ''k'' (PInt 42)
       = (case yaml_dump (PDict [(PStr ''key'', PInt 42)]) of
            Inl e \<Rightarrow> False
          | Inr s \<Rightarrow> (case yaml_safe_load s of Inl e \<Rightarrow> False | Inr loaded \<Rightarrow> True))"
  by (simp add: is_yaml_serializable_def yaml_document_def)

text \<open>
  C10. The result of \<open>is_yaml_serializable\<close> is the same for any two keys: it depends
  on the value only, since the mapping encoded is the same.
\<close>

theorem is_yaml_serializable_ignores_key:
  "is_yaml_serializable yaml_dump yaml_safe_load k1 v
     = is_yaml_serializable yaml_dump yaml_safe_load k2 v"
  by (simp add: is_yaml_serializable_def yaml_document_def)

end
